theory Spec2Isabelle
  imports Main
begin

section \<open>Data model\<close>

text \<open>
  JSON objects as the handlers build and read them: flat objects whose fields are strings
  or numbers (\<open>{message: ...}\<close>, \<open>{token}\<close>, \<open>{id, username}\<close>). A field is looked up
  with \<open>map_of\<close>.
\<close>

datatype jvalue = JStr string | JNum int

type_synonym json = "(string \<times> jvalue) list"

text \<open>
  What can be thrown: \<open>TypeError\<close> by the JavaScript runtime (reading a property of
  \<open>null\<close>), the others by the libraries, named as the specification's error taxonomy
  names them.
\<close>

datatype exn = TypeError | InvalidToken | SecretAbsent | ConflictError | MalformedHash

text \<open>
  A row of the table \<open>"User"\<close> of the migration: columns \<open>_id\<close>, \<open>username\<close>,
  \<open>password\<close>, \<open>createdAt\<close>, \<open>updatedAt\<close>, all \<open>NOT NULL\<close>. The client exposes
  \<open>_id\<close> as \<open>user.id\<close>; the field is \<open>id'\<close> here, \<open>id\<close> being the identity of HOL.
\<close>

record User =
  id' :: string
  username :: string
  password :: string
  createdAt :: nat
  updatedAt :: nat

record req_body =
  body_username :: string
  body_password :: string

text \<open>
  The parts of an Express request the code reads and writes: \<open>req.headers.authorization\<close>
  (absent or a string), \<open>req.body\<close> and \<open>req.user\<close>.
\<close>

record request =
  headers_authorization :: "string option"
  body :: req_body
  user :: "json option"

text \<open>
  The response: \<open>res.status(n)\<close> sets the status code, \<open>res.json(b)\<close> sends the body.
  A response Express hands to a handler has status 200 and nothing sent.
\<close>

record response =
  statusCode :: nat
  sent :: "json option"

definition fresh_response :: response where
  "fresh_response = \<lparr>statusCode = 200, sent = None\<rparr>"

definition res_status :: "nat \<Rightarrow> response \<Rightarrow> response" where
  "res_status n rs = rs\<lparr>statusCode := n\<rparr>"

definition res_json :: "json \<Rightarrow> response \<Rightarrow> response" where
  "res_json b rs = rs\<lparr>sent := Some b\<rparr>"

record process_env =
  JWT_SECRET :: "string option"

section \<open>JavaScript strings\<close>

text \<open>
  \<open>!x\<close> for a value that is a string or \<open>undefined\<close>: true for \<open>undefined\<close> and for
  the empty string.
\<close>

definition falsy :: "string option \<Rightarrow> bool" where
  "falsy x = (case x of None \<Rightarrow> True | Some s \<Rightarrow> s = [])"

text \<open>
  \<open>s.split(c)\<close> for a one-character separator: every occurrence of the separator ends a
  piece, so the result is never empty and two separators in a row give an empty piece.
\<close>

fun split_str :: "char \<Rightarrow> string \<Rightarrow> string list" where
  "split_str c [] = [[]]"
| "split_str c (x # xs) =
     (if x = c then [] # split_str c xs
      else (case split_str c xs of
              [] \<Rightarrow> [[x]]
            | w # ws \<Rightarrow> (x # w) # ws))"

text \<open>\<open>xs[i]\<close>: \<open>undefined\<close> out of range.\<close>

definition index :: "'a list \<Rightarrow> nat \<Rightarrow> 'a option" where
  "index xs i = (if i < length xs then Some (xs ! i) else None)"

section \<open>The libraries the code calls\<close>

text \<open>
  The module \<open>jsonwebtoken\<close> as the code uses it: \<open>jwt.sign(payload, secret)\<close> and
  \<open>jwt.verify(token, secret)\<close>, each returning or throwing. The secret is
  \<open>process.env.JWT_SECRET\<close>, which may be \<open>undefined\<close>. The first argument is the clock
  both read (seconds).
\<close>

record jwt_module =
  jwt_sign :: "nat \<Rightarrow> json \<Rightarrow> string option \<Rightarrow> exn + string"
  jwt_verify :: "nat \<Rightarrow> string \<Rightarrow> string option \<Rightarrow> exn + json"

text \<open>
  The module \<open>bcryptjs\<close> as the code uses it: \<open>bcryptjs.hash(password, rounds)\<close> draws a
  random salt, which is the first argument here, and \<open>bcryptjs.compare(password, hash)\<close>.
\<close>

record bcryptjs_module =
  bcryptjs_hash :: "string \<Rightarrow> string \<Rightarrow> nat \<Rightarrow> string"
  bcryptjs_compare :: "string \<Rightarrow> string \<Rightarrow> exn + bool"

section \<open>modules/auth\<close>

definition comparePasswords :: "bcryptjs_module \<Rightarrow> string \<Rightarrow> string \<Rightarrow> exn + bool" where
  "comparePasswords bc pw hash = bcryptjs_compare bc pw hash"

definition hashPassword :: "bcryptjs_module \<Rightarrow> string \<Rightarrow> string \<Rightarrow> string" where
  "hashPassword bc salt pw = bcryptjs_hash bc salt pw 10"

definition createJWT :: "jwt_module \<Rightarrow> process_env \<Rightarrow> nat \<Rightarrow> User \<Rightarrow> exn + string" where
  "createJWT jw env now usr =
     jwt_sign jw now [(''id'', JStr (id' usr)), (''username'', JStr (username usr))]
       (JWT_SECRET env)"

text \<open>
  The calls \<open>protect\<close> makes, in order: the token verifier, \<open>next()\<close> and
  \<open>console.error\<close>.
\<close>

datatype call = Call_jwt_verify string "string option" | Call_next | Call_console_error exn

record protect_result =
  req :: request
  res :: response
  calls :: "call list"

text \<open>
  \<open>protect(req, res, next)\<close>. \<open>nxt\<close> is what calling \<open>next()\<close> does as far as
  \<open>protect\<close> sees it: it returns (\<open>None\<close>) or throws; it is called inside the
  \<open>try\<close> block, so what it throws is caught like a verification failure.
\<close>

definition protect ::
  "jwt_module \<Rightarrow> process_env \<Rightarrow> nat \<Rightarrow> (request \<Rightarrow> exn option) \<Rightarrow> request \<Rightarrow> response
     \<Rightarrow> protect_result" where
  "protect jw env now nxt rq rs =
     (let bearer = headers_authorization rq in
      if falsy bearer then
        \<lparr>req = rq,
         res = res_json [(''message'', JStr ''Unauthorized'')] (res_status 401 rs),
         calls = []\<rparr>
      else
        let token = index (split_str CHR '' '' (the bearer)) 1 in
        if falsy token then
          \<lparr>req = rq,
           res = res_json [(''message'', JStr ''No token provided'')] (res_status 401 rs),
           calls = []\<rparr>
        else
          (case jwt_verify jw now (the token) (JWT_SECRET env) of
             Inr usr \<Rightarrow>
               (let rq' = rq\<lparr>user := Some usr\<rparr> in
                case nxt rq' of
                  None \<Rightarrow>
                    \<lparr>req = rq', res = rs,
                     calls = [Call_jwt_verify (the token) (JWT_SECRET env), Call_next]\<rparr>
                | Some e \<Rightarrow>
                    \<lparr>req = rq',
                     res = res_json [(''message'', JStr ''Invalid token'')] (res_status 401 rs),
                     calls = [Call_jwt_verify (the token) (JWT_SECRET env), Call_next,
                              Call_console_error e]\<rparr>)
           | Inl e \<Rightarrow>
               \<lparr>req = rq,
                res = res_json [(''message'', JStr ''Invalid token'')] (res_status 401 rs),
                calls = [Call_jwt_verify (the token) (JWT_SECRET env), Call_console_error e]\<rparr>))"

section \<open>The token library\<close>

text \<open>
  Modelled from the spec: the text of a JSON object inside a token of the library
  \<open>jsonwebtoken\<close>, which is not part of the repository ("a signed bearer credential
  encoding the account identifier and handle"). It is a form that is read back without
  search: every string is preceded by its length in unary, a number is its sign and
  decimal digits, an object its number of fields and then the fields.
\<close>

definition unary :: "nat \<Rightarrow> string" where
  "unary n = replicate n CHR ''1'' @ ''0''"

definition str_field :: "string \<Rightarrow> string" where
  "str_field s = unary (length s) @ s"

definition parse_field :: "string \<Rightarrow> (string \<times> string) option" where
  "parse_field t =
     (let n = length (takeWhile (\<lambda>c. c = CHR ''1'') t); r = drop (Suc n) t in
      if n < length t \<and> n \<le> length r then Some (take n r, drop n r) else None)"

definition digit_char :: "nat \<Rightarrow> char" where
  "digit_char d = char_of (48 + d)"

definition digit_val :: "char \<Rightarrow> nat" where
  "digit_val c = of_char c - 48"

definition is_digit :: "char \<Rightarrow> bool" where
  "is_digit c = (48 \<le> (of_char c :: nat) \<and> (of_char c :: nat) \<le> 57)"

fun digits :: "nat \<Rightarrow> string" where
  "digits n = (if n < 10 then [digit_char n] else digits (n div 10) @ [digit_char (n mod 10)])"

definition undigits :: "string \<Rightarrow> nat" where
  "undigits ds = foldl (\<lambda>acc c. 10 * acc + digit_val c) 0 ds"

fun stringify_value :: "jvalue \<Rightarrow> string" where
  "stringify_value (JStr s) = ''s'' @ str_field s"
| "stringify_value (JNum i) =
     ''n'' @ (if i < 0 then ''-'' else ''+'') @ str_field (digits (nat \<bar>i\<bar>))"

definition parse_value :: "string \<Rightarrow> (jvalue \<times> string) option" where
  "parse_value t =
     (case t of
        [] \<Rightarrow> None
      | tag # t1 \<Rightarrow>
          if tag = CHR ''s'' then
            (case parse_field t1 of None \<Rightarrow> None | Some (s, r) \<Rightarrow> Some (JStr s, r))
          else if tag = CHR ''n'' then
            (case t1 of
               [] \<Rightarrow> None
             | sg # t2 \<Rightarrow>
                 if sg = CHR ''-'' \<or> sg = CHR ''+'' then
                   (case parse_field t2 of
                      None \<Rightarrow> None
                    | Some (ds, r) \<Rightarrow>
                        if ds \<noteq> [] \<and> list_all is_digit ds then
                          Some (JNum (if sg = CHR ''-'' then - int (undigits ds)
                                      else int (undigits ds)), r)
                        else None)
                 else None)
          else None)"

definition stringify_entry :: "string \<times> jvalue \<Rightarrow> string" where
  "stringify_entry kv = str_field (fst kv) @ stringify_value (snd kv)"

definition stringify :: "json \<Rightarrow> string" where
  "stringify obj = unary (length obj) @ concat (map stringify_entry obj)"

primrec parse_entries :: "nat \<Rightarrow> string \<Rightarrow> (json \<times> string) option" where
  "parse_entries 0 t = Some ([], t)"
| "parse_entries (Suc n) t =
     (case parse_field t of
        None \<Rightarrow> None
      | Some (k, t1) \<Rightarrow>
          (case parse_value t1 of
             None \<Rightarrow> None
           | Some (v, t2) \<Rightarrow>
               (case parse_entries n t2 of
                  None \<Rightarrow> None
                | Some (kvs, r) \<Rightarrow> Some ((k, v) # kvs, r))))"

definition parse :: "string \<Rightarrow> json option" where
  "parse t =
     (let n = length (takeWhile (\<lambda>c. c = CHR ''1'') t) in
      if n < length t then
        (case parse_entries n (drop (Suc n) t) of
           Some (obj, []) \<Rightarrow> Some obj
         | _ \<Rightarrow> None)
      else None)"

text \<open>
  Modelled from the spec: the encoding of a token segment of the library
  \<open>jsonwebtoken\<close>, which is not part of the repository (base64url in a JSON Web Token): a text becomes a text
  over an alphabet that has neither \<open>.\<close> nor the space, here the eight bits of every
  character, and is read back from it.
\<close>

definition bit_char :: "bool \<Rightarrow> char" where
  "bit_char b = (if b then CHR ''1'' else CHR ''0'')"

definition is_bit :: "char \<Rightarrow> bool" where
  "is_bit c = (c = CHR ''0'' \<or> c = CHR ''1'')"

fun char_bits :: "char \<Rightarrow> string" where
  "char_bits (Char b0 b1 b2 b3 b4 b5 b6 b7) = map bit_char [b0, b1, b2, b3, b4, b5, b6, b7]"

definition encode_segment :: "string \<Rightarrow> string" where
  "encode_segment s = concat (map char_bits s)"

fun decode_segment :: "string \<Rightarrow> string option" where
  "decode_segment [] = Some []"
| "decode_segment (c0 # c1 # c2 # c3 # c4 # c5 # c6 # c7 # cs) =
     (if list_all is_bit [c0, c1, c2, c3, c4, c5, c6, c7] then
        (case decode_segment cs of
           None \<Rightarrow> None
         | Some s \<Rightarrow>
             Some (Char (c0 = CHR ''1'') (c1 = CHR ''1'') (c2 = CHR ''1'') (c3 = CHR ''1'')
                        (c4 = CHR ''1'') (c5 = CHR ''1'') (c6 = CHR ''1'') (c7 = CHR ''1'') # s))
      else None)"
| "decode_segment cs = None"

text \<open>
  Modelled from the spec: the header of a token, the payload that is signed (the issue time
  is added to a payload that has none: "time-bound"), the text that is signed, and when a
  payload has expired ("fails for malformed/forged/expired tokens"; the tokens issued here
  carry no expiry). They belong to the library \<open>jsonwebtoken\<close>, which is not part of the
  repository.
\<close>

definition jwt_header :: json where
  "jwt_header = [(''alg'', JStr ''HS256''), (''typ'', JStr ''JWT'')]"

definition with_iat :: "nat \<Rightarrow> json \<Rightarrow> json" where
  "with_iat now payload =
     (if map_of payload ''iat'' = None then payload @ [(''iat'', JNum (int now))] else payload)"

definition signing_input :: "json \<Rightarrow> string" where
  "signing_input payload =
     encode_segment (stringify jwt_header) @ ''.'' @ encode_segment (stringify payload)"

definition expired :: "nat \<Rightarrow> json \<Rightarrow> bool" where
  "expired now payload =
     (case map_of payload ''exp'' of Some (JNum e) \<Rightarrow> e \<le> int now | _ \<Rightarrow> False)"

text \<open>
  Modelled from the spec: the token signer of the library \<open>jsonwebtoken\<close>, which is not
  part of the repository. "Produces a signed token whose payload contains at minimum the
  account's unique identifier and handle. Signing key is a process-wide secret; the issuer
  fails if the secret is absent." The token is the signing input (header and payload
  segments), a dot and the segment of the keyed digest \<open>mac secret input\<close>; \<open>mac\<close> is a
  parameter.
\<close>

definition sign ::
  "(string \<Rightarrow> string \<Rightarrow> string) \<Rightarrow> nat \<Rightarrow> json \<Rightarrow> string option \<Rightarrow> exn + string" where
  "sign mac now payload secret =
     (if falsy secret then Inl SecretAbsent
      else
        let input = signing_input (with_iat now payload) in
        Inr (input @ ''.'' @ encode_segment (mac (the secret) input)))"

text \<open>
  Modelled from the spec: the token verifier of the library \<open>jsonwebtoken\<close>, which is not
  part of the repository. "Checks signature and structural validity against the same
  secret; fails with InvalidToken for malformed/forged/expired tokens." Structure: three
  segments separated by dots, of which the first reads back as the header and the second as
  a payload; signature: the third is the segment of the digest of the first two under the
  secret.
\<close>

definition verify ::
  "(string \<Rightarrow> string \<Rightarrow> string) \<Rightarrow> nat \<Rightarrow> string \<Rightarrow> string option \<Rightarrow> exn + json" where
  "verify mac now token secret =
     (case split_str CHR ''.'' token of
        [h, p, sg] \<Rightarrow>
          (case (Option.bind (decode_segment h) parse, Option.bind (decode_segment p) parse) of
             (Some hdr, Some payload) \<Rightarrow>
               if hdr \<noteq> jwt_header \<or> falsy secret then Inl InvalidToken
               else if sg \<noteq> encode_segment (mac (the secret) (h @ ''.'' @ p)) then
                 Inl InvalidToken
               else if expired now payload then Inl InvalidToken
               else Inr payload
           | _ \<Rightarrow> Inl InvalidToken)
      | _ \<Rightarrow> Inl InvalidToken)"

definition jsonwebtoken :: "(string \<Rightarrow> string \<Rightarrow> string) \<Rightarrow> jwt_module" where
  "jsonwebtoken mac = \<lparr>jwt_sign = sign mac, jwt_verify = verify mac\<rparr>"

section \<open>The password library\<close>

text \<open>
  Modelled from the spec: the cost factor as the stored string of the library \<open>bcryptjs\<close>
  shows it, in two decimal digits (\<open>10\<close> in the source's comment).
\<close>

definition two_digits :: "nat \<Rightarrow> string" where
  "two_digits n = [digit_char (n div 10), digit_char (n mod 10)]"

text \<open>
  Modelled from the spec: the hash function of the library \<open>bcryptjs\<close>, which is not part
  of the repository. "Applies a salted, adaptive (cost-factor-tunable) one-way hash to the
  plaintext." The stored string is the one the source's comment shows
  (\<open>$2a$10$\<close> and 53 more characters): the version, the cost in two digits, the salt in 22
  characters and the digest \<open>kdf rounds salt password\<close>; \<open>kdf\<close> is a parameter.
\<close>

definition hash ::
  "(nat \<Rightarrow> string \<Rightarrow> string \<Rightarrow> string) \<Rightarrow> string \<Rightarrow> string \<Rightarrow> nat \<Rightarrow> string" where
  "hash kdf salt pw rounds = ''$2a$'' @ two_digits rounds @ ''$'' @ salt @ kdf rounds salt pw"

text \<open>
  Modelled from the spec: the comparison of the library \<open>bcryptjs\<close>, which is not part of
  the repository. "Recomputes and compares; never throws on mismatch, only on malformed
  hash input." The cost and the salt are read from the stored string, the plaintext is
  hashed with them and the result compared with the stored string.
\<close>

definition compare ::
  "(nat \<Rightarrow> string \<Rightarrow> string \<Rightarrow> string) \<Rightarrow> string \<Rightarrow> string \<Rightarrow> exn + bool" where
  "compare kdf pw h =
     (if 29 \<le> length h \<and> take 4 h = ''$2a$'' \<and> is_digit (h ! 4) \<and> is_digit (h ! 5)
         \<and> h ! 6 = CHR ''$'' then
        Inr (hash kdf (take 22 (drop 7 h)) pw (undigits (take 2 (drop 4 h))) = h)
      else Inl MalformedHash)"

definition bcryptjs :: "(nat \<Rightarrow> string \<Rightarrow> string \<Rightarrow> string) \<Rightarrow> bcryptjs_module" where
  "bcryptjs kdf = \<lparr>bcryptjs_hash = hash kdf, bcryptjs_compare = compare kdf\<rparr>"

section \<open>The store\<close>

text \<open>
  Modelled from the spec: the persistence collaborator (the generated database client),
  which is not part of the repository. "\<open>create({username, password}) -> Account\<close> (fails
  with \<open>ConflictError\<close> on duplicate handle)." The table is the list of its rows; the migration makes \<open>_id\<close> the primary key and
  \<open>username\<close> unique. The new row's identifier and the clock are arguments.
\<close>

definition prisma_user_create ::
  "string \<Rightarrow> nat \<Rightarrow> User list \<Rightarrow> string \<Rightarrow> string \<Rightarrow> exn + (User \<times> User list)" where
  "prisma_user_create new_id now db uname pw =
     (if list_ex (\<lambda>u. username u = uname \<or> id' u = new_id) db then Inl ConflictError
      else
        let usr = \<lparr>id' = new_id, username = uname, password = pw,
                   createdAt = now, updatedAt = now\<rparr>
        in Inr (usr, db @ [usr]))"

text \<open>
  Modelled from the spec: the lookup of the persistence collaborator, which is not part of
  the repository: "\<open>findByUsername(username) -> Account | none\<close>".
\<close>

definition prisma_user_findUnique :: "User list \<Rightarrow> string \<Rightarrow> User option" where
  "prisma_user_findUnique db uname = find (\<lambda>u. username u = uname) db"

section \<open>handlers/user\<close>

text \<open>
  \<open>createNewUser(req, res)\<close>: the table after the call, and the response or what the
  promise is rejected with.
\<close>

definition createNewUser ::
  "bcryptjs_module \<Rightarrow> jwt_module \<Rightarrow> process_env \<Rightarrow> nat \<Rightarrow> string \<Rightarrow> string \<Rightarrow> User list
     \<Rightarrow> request \<Rightarrow> response \<Rightarrow> User list \<times> (exn + response)" where
  "createNewUser bc jw env now new_id salt db rq rs =
     (let hashed = hashPassword bc salt (body_password (body rq)) in
      case prisma_user_create new_id now db (body_username (body rq)) hashed of
        Inl e \<Rightarrow> (db, Inl e)
      | Inr (usr, db') \<Rightarrow>
          (case createJWT jw env now usr of
             Inl e \<Rightarrow> (db', Inl e)
           | Inr token \<Rightarrow> (db', Inr (res_json [(''token'', JStr token)] rs))))"

text \<open>
  \<open>signin(req, res)\<close>: the response, or what the promise is rejected with. \<open>findUnique\<close>
  gives \<open>null\<close> for an unknown username, and reading \<open>user.password\<close> of \<open>null\<close> throws
  a \<open>TypeError\<close>.
\<close>

definition signin ::
  "bcryptjs_module \<Rightarrow> jwt_module \<Rightarrow> process_env \<Rightarrow> nat \<Rightarrow> User list \<Rightarrow> request \<Rightarrow> response
     \<Rightarrow> exn + response" where
  "signin bc jw env now db rq rs =
     (let uname = body_username (body rq); pw = body_password (body rq) in
      case prisma_user_findUnique db uname of
        None \<Rightarrow> Inl TypeError
      | Some usr \<Rightarrow>
          (case comparePasswords bc pw (password usr) of
             Inl e \<Rightarrow> Inl e
           | Inr isValid \<Rightarrow>
               if \<not> isValid then
                 Inr (res_json [(''message'', JStr ''Invalid Credentials'')] (res_status 401 rs))
               else
                 (case createJWT jw env now usr of
                    Inl e \<Rightarrow> Inl e
                  | Inr token \<Rightarrow> Inr (res_json [(''token'', JStr token)] rs))))"

section \<open>Example data\<close>

text \<open>
  The data of the examples below: a keyed digest and a key derivation to run the two
  libraries with, a signing secret, the request of the source's comments
  (\<open>{"username": "johnDoe", "password": "mysecretpassword"}\<close>) and the row its
  sign-up stores.
\<close>

definition example_mac :: "string \<Rightarrow> string \<Rightarrow> string" where
  "example_mac k m = k @ take 3 m"

definition example_kdf :: "nat \<Rightarrow> string \<Rightarrow> string \<Rightarrow> string" where
  "example_kdf r s p = rev p @ s"

definition example_env :: process_env where
  "example_env = \<lparr>JWT_SECRET = Some ''s3cret''\<rparr>"

definition example_request :: "string option \<Rightarrow> string \<Rightarrow> string \<Rightarrow> request" where
  "example_request h u p =
     \<lparr>headers_authorization = h, body = \<lparr>body_username = u, body_password = p\<rparr>,
      user = None\<rparr>"

definition example_user :: User where
  "example_user =
     \<lparr>id' = ''u1'', username = ''johnDoe'',
      password = hashPassword (bcryptjs example_kdf) ''abcdefghijklmnopqrstuv''
                   ''mysecretpassword'',
      createdAt = 5, updatedAt = 5\<rparr>"

section \<open>Reading back what was written\<close>

lemma takeWhile_unary [simp]:
  "takeWhile (\<lambda>c. c = CHR ''1'') (unary n @ r) = replicate n CHR ''1''"
  by (simp add: unary_def takeWhile_append)

lemma length_unary [simp]: "length (unary n) = Suc n"
  by (simp add: unary_def)

lemma drop_unary [simp]: "drop (Suc n) (unary n @ r) = r"
  by (simp add: unary_def)

lemma parse_field_str_field [simp]: "parse_field (str_field s @ r) = Some (s, r)"
  by (simp add: parse_field_def str_field_def Let_def)

lemma digit_val_char: "d < 10 \<Longrightarrow> digit_val (digit_char d) = d"
  by (simp add: digit_val_def digit_char_def)

lemma is_digit_char: "d < 10 \<Longrightarrow> is_digit (digit_char d)"
  by (simp add: is_digit_def digit_char_def)

lemma undigits_snoc: "undigits (ds @ [c]) = 10 * undigits ds + digit_val c"
  by (simp add: undigits_def)

lemma undigits_digits [simp]: "undigits (digits n) = n"
proof (induction n rule: digits.induct)
  case (1 n)
  show ?case
  proof (cases "n < 10")
    case True
    then show ?thesis by (simp add: undigits_def digit_val_char)
  next
    case False
    then have "undigits (digits n) =
        10 * undigits (digits (n div 10)) + digit_val (digit_char (n mod 10))"
      by (subst digits.simps) (simp add: undigits_snoc)
    with False 1 show ?thesis by (simp add: digit_val_char)
  qed
qed

lemma digits_all [simp]: "list_all is_digit (digits n)"
proof (induction n rule: digits.induct)
  case (1 n)
  show ?case
  proof (cases "n < 10")
    case True
    then show ?thesis by (simp add: is_digit_char)
  next
    case False
    with 1 show ?thesis by (subst digits.simps) (simp add: is_digit_char)
  qed
qed

lemma digits_nonempty [simp]: "digits n \<noteq> []"
  by (subst digits.simps) simp

declare digits.simps [simp del]

lemma parse_value_stringify [simp]: "parse_value (stringify_value v @ r) = Some (v, r)"
  by (cases v) (auto simp: parse_value_def)

lemma parse_entries_stringify [simp]:
  "parse_entries (length obj) (concat (map stringify_entry obj) @ r) = Some (obj, r)"
  by (induction obj) (auto simp: stringify_entry_def)

lemma parse_stringify [simp]: "parse (stringify obj) = Some obj"
  using parse_entries_stringify [of obj "[]"]
  by (simp add: parse_def stringify_def Let_def del: parse_entries_stringify)

lemma decode_char_bits [simp]:
  "decode_segment (char_bits c @ r) = map_option ((#) c) (decode_segment r)"
  by (cases c) (auto simp: bit_char_def is_bit_def split: option.splits)

lemma decode_encode [simp]: "decode_segment (encode_segment s) = Some s"
  by (induction s) (simp_all add: encode_segment_def)

lemma set_char_bits: "set (char_bits c) \<subseteq> {CHR ''0'', CHR ''1''}"
  by (cases c) (auto simp: bit_char_def)

lemma set_encode_segment: "set (encode_segment s) \<subseteq> {CHR ''0'', CHR ''1''}"
  using set_char_bits by (induction s) (auto simp: encode_segment_def)

lemma encode_segment_inj: "encode_segment a = encode_segment b \<Longrightarrow> a = b"
  by (metis decode_encode option.inject)

lemma dot_free_segment [simp]: "CHR ''.'' \<notin> set (encode_segment s)"
  using set_encode_segment [of s] by auto

lemma space_free_segment [simp]: "CHR '' '' \<notin> set (encode_segment s)"
  using set_encode_segment [of s] by auto

section \<open>Splitting\<close>

lemma split_str_nonempty [simp]: "split_str c s \<noteq> []"
  by (induction s) (auto split: list.splits)

lemma split_str_free [simp]: "c \<notin> set a \<Longrightarrow> split_str c a = [a]"
  by (induction a) auto

lemma split_str_sep [simp]: "c \<notin> set a \<Longrightarrow> split_str c (a @ c # r) = a # split_str c r"
  by (induction a) auto

lemma hd_split_str: "hd (split_str c s) = takeWhile (\<lambda>x. x \<noteq> c) s"
  by (induction s) (auto split: list.splits)

lemma index_Cons_1: "index (a # xs) (Suc 0) = (if xs = [] then None else Some (hd xs))"
  by (cases xs) (simp_all add: index_def)


lemma protect_rejected:
  assumes "jwt_verify jw now t (JWT_SECRET env) = Inl e
      \<and> headers_authorization rq = Some (''Bearer '' @ t) \<and> CHR '' '' \<notin> set t"
  shows "statusCode (res (protect jw env now nxt rq rs)) = 401
       \<and> Call_next \<notin> set (calls (protect jw env now nxt rq rs))"
proof -
  from assms have "index (split_str CHR '' '' (''Bearer '' @ t)) 1 = Some t"
    using split_str_sep [of "CHR '' ''" "''Bearer''" t] by (simp add: index_def)
  with assms show ?thesis
    by (simp add: protect_def falsy_def res_json_def res_status_def Let_def)
qed

section \<open>Tokens of the token library\<close>

lemma verify_sign:
  assumes "s \<noteq> []" and "\<not> expired now' (with_iat now payload)"
  shows "verify mac now' (signing_input (with_iat now payload) @ ''.'' @
           encode_segment (mac s (signing_input (with_iat now payload)))) (Some s)
         = Inr (with_iat now payload)"
  using assms by (simp add: verify_def signing_input_def falsy_def)

lemma verify_empty: "verify mac now [] secret = Inl InvalidToken"
  by (simp add: verify_def)

lemma verify_falsy: "falsy secret \<Longrightarrow> verify mac now tok secret = Inl InvalidToken"
  by (auto simp: verify_def split: list.splits option.splits)

lemma verify_other_secret:
  assumes "mac s' (signing_input payload) \<noteq> mac s (signing_input payload)"
  shows "verify mac now' (signing_input payload @ ''.'' @
           encode_segment (mac s' (signing_input payload))) (Some s) = Inl InvalidToken"
  using assms by (auto simp: verify_def signing_input_def dest: encode_segment_inj)

lemma verify_take:
  assumes "n < length (signing_input payload @ ''.'' @ g)"
    and "g = encode_segment (mac s (signing_input payload))"
  shows "verify mac now' (take n (signing_input payload @ ''.'' @ g)) (Some s) = Inl InvalidToken"
proof -
  let ?a = "encode_segment (stringify jwt_header)"
  let ?b = "encode_segment (stringify payload)"
  consider (one) "n \<le> length ?a" | (two) "length ?a < n" "n \<le> Suc (length ?a + length ?b)"
    | (three) "Suc (length ?a + length ?b) < n" by linarith
  then show ?thesis
  proof cases
    case one
    then have "take n (signing_input payload @ ''.'' @ g) = take n ?a"
      by (simp add: signing_input_def)
    moreover have "CHR ''.'' \<notin> set (take n ?a)"
      by (meson dot_free_segment in_set_takeD)
    ultimately show ?thesis by (simp add: verify_def)
  next
    case two
    then obtain m where m: "n = Suc (length ?a + m)" "m \<le> length ?b"
      by (metis Suc_leI add_Suc le_Suc_ex nat_add_left_cancel_le)
    then have "take n (signing_input payload @ ''.'' @ g) = ?a @ CHR ''.'' # take m ?b"
      by (simp add: signing_input_def)
    moreover have "CHR ''.'' \<notin> set (take m ?b)"
      by (meson dot_free_segment in_set_takeD)
    ultimately show ?thesis by (simp add: verify_def)
  next
    case three
    then obtain k where k: "n = Suc (Suc (length ?a + length ?b + k))"
      by (metis Suc_leI add_Suc le_Suc_ex add_Suc_right)
    with assms(1) have klt: "k < length g" by (simp add: signing_input_def)
    from k have "take n (signing_input payload @ ''.'' @ g) =
        ?a @ CHR ''.'' # ?b @ CHR ''.'' # take k g"
      by (simp add: signing_input_def)
    moreover have "CHR ''.'' \<notin> set (take k g)"
      using assms(2) by (meson dot_free_segment in_set_takeD)
    moreover have "take k g \<noteq> g" using klt
      by (metis length_take min.absorb2 nat_less_le order.strict_implies_order)
    ultimately show ?thesis using assms(2) by (simp add: verify_def signing_input_def)
  qed
qed

lemma sign_nonempty: "sign mac now payload secret = Inr tok \<Longrightarrow> tok \<noteq> []"
  by (auto simp: sign_def Let_def split: if_splits)

lemma sign_space_free: "sign mac now payload secret = Inr tok \<Longrightarrow> CHR '' '' \<notin> set tok"
  by (auto simp: sign_def Let_def signing_input_def split: if_splits)

lemma with_iat_payload:
  "with_iat now [(''id'', JStr i), (''username'', JStr u)] =
     [(''id'', JStr i), (''username'', JStr u), (''iat'', JNum (int now))]"
  by (simp add: with_iat_def)

lemma createJWT_reference:
  "\<not> falsy (JWT_SECRET env) \<Longrightarrow>
   createJWT (jsonwebtoken mac) env now a =
     Inr (signing_input (with_iat now [(''id'', JStr (id' a)), (''username'', JStr (username a))])
          @ ''.'' @
          encode_segment (mac (the (JWT_SECRET env))
            (signing_input
               (with_iat now [(''id'', JStr (id' a)), (''username'', JStr (username a))]))))"
  by (simp add: createJWT_def jsonwebtoken_def sign_def Let_def)

lemma createJWT_verify:
  assumes "JWT_SECRET env = Some s" and "s \<noteq> []"
    and "createJWT (jsonwebtoken mac) env now a = Inr tok"
  shows "verify mac now' tok (Some s) =
           Inr [(''id'', JStr (id' a)), (''username'', JStr (username a)),
                (''iat'', JNum (int now))]"
proof -
  have nf: "\<not> falsy (JWT_SECRET env)" using assms(1,2) by (simp add: falsy_def)
  have "\<not> expired now' (with_iat now [(''id'', JStr (id' a)), (''username'', JStr (username a))])"
    by (simp add: with_iat_payload expired_def)
  from verify_sign [OF assms(2) this, of mac] createJWT_reference [OF nf, of mac now a] assms(1,3)
  show ?thesis by (simp add: with_iat_payload)
qed

section \<open>Hashes of the password library\<close>

lemma two_digits_back: "r < 100 \<Longrightarrow> undigits (two_digits r) = r"
  by (simp add: two_digits_def undigits_def digit_val_char)

lemma compare_hash_iff:
  assumes "length salt = 22" and "rounds < 100"
  shows "compare kdf pw' (hash kdf salt pw rounds) =
           Inr (kdf rounds salt pw' = kdf rounds salt pw)"
proof -
  let ?h = "hash kdf salt pw rounds"
  have h: "?h = ''$2a$'' @ two_digits rounds @ ''$'' @ salt @ kdf rounds salt pw"
    by (simp add: hash_def)
  have 1: "29 \<le> length ?h" using assms(1) by (simp add: h two_digits_def)
  have 2: "take 4 ?h = ''$2a$''" by (simp add: h)
  have 3: "is_digit (?h ! 4)" "is_digit (?h ! 5)"
    using assms(2) by (simp_all add: h two_digits_def is_digit_char)
  have 4: "?h ! 6 = CHR ''$''" by (simp add: h two_digits_def)
  have 5: "take 22 (drop 7 ?h) = salt" using assms(1) by (simp add: h two_digits_def)
  have 6: "take 2 (drop 4 ?h) = two_digits rounds" by (simp add: h two_digits_def)
  have "compare kdf pw' ?h = Inr (hash kdf salt pw' rounds = ?h)"
    unfolding compare_def using 1 2 3 4 assms(2) by (simp only: 5 6 two_digits_back) simp
  then show ?thesis by (simp add: hash_def)
qed

lemma compare_hash:
  assumes "length salt = 22" and "rounds < 100"
  shows "compare kdf pw (hash kdf salt pw rounds) = Inr True"
  using compare_hash_iff [OF assms, of kdf pw pw] by simp

lemma hash_salt_inj:
  assumes "length s1 = length s2" and "hash kdf s1 pw rounds = hash kdf s2 pw rounds"
  shows "s1 = s2"
  using assms by (simp add: hash_def)

lemma two_digits_10: "two_digits 10 = ''10''"
  by code_simp

lemma hash_prefix: "take 7 (hash kdf salt pw 10) = ''$2a$10$''"
  by (simp add: hash_def two_digits_10)

lemma hash_not_plaintext: "take 7 pw \<noteq> ''$2a$10$'' \<Longrightarrow> hash kdf salt pw 10 \<noteq> pw"
  using hash_prefix [of kdf salt pw] by auto

section \<open>Rows of the store\<close>

lemma find_distinct:
  "distinct (map f xs) \<Longrightarrow> x \<in> set xs \<Longrightarrow> find (\<lambda>u. f u = f x) xs = Some x"
  by (induction xs) auto

section \<open>The middleware\<close>

text \<open>
  Claim C6. A request with no \<open>Authorization\<close> header is answered 401 with the body
  \<open>{message: "Unauthorized"}\<close>; the request is left as it was, and neither the token
  verifier nor \<open>next\<close> is called. This holds whatever the token library, the secret and
  \<open>next\<close> are.
\<close>

theorem protect_no_authorization_header:
  "headers_authorization rq = None \<Longrightarrow>
   protect jw env now nxt rq rs =
     \<lparr>req = rq,
      res = rs\<lparr>statusCode := 401, sent := Some [(''message'', JStr ''Unauthorized'')]\<rparr>,
      calls = []\<rparr>"
  by (simp add: protect_def falsy_def res_json_def res_status_def)

theorem protect_no_authorization_header_witness:
  "headers_authorization (example_request None ''johnDoe'' ''mysecretpassword'') = None
   \<and> protect (jsonwebtoken example_mac) example_env 9 (\<lambda>r. None)
       (example_request None ''johnDoe'' ''mysecretpassword'') fresh_response =
     \<lparr>req = example_request None ''johnDoe'' ''mysecretpassword'',
      res = \<lparr>statusCode = 401, sent = Some [(''message'', JStr ''Unauthorized'')]\<rparr>,
      calls = []\<rparr>"
  using protect_no_authorization_header
    [of "example_request None ''johnDoe'' ''mysecretpassword''"
        "jsonwebtoken example_mac" example_env 9 "\<lambda>r. None" fresh_response]
  by (simp add: fresh_response_def example_request_def)

text \<open>
  Claim C7. A request whose \<open>Authorization\<close> header is present and not empty, but has
  nothing where the token should be, is answered 401 with the body
  \<open>{message: "No token provided"}\<close>, and neither the token verifier nor \<open>next\<close> is
  called. "Nothing where the token should be": the header is the scheme alone (it has no
  space), or the text between the first space and the next one (or the end) is empty, as in
  \<open>"Bearer"\<close> and \<open>"Bearer "\<close>. (An empty header value is answered as an absent one,
  since \<open>!bearer\<close> holds for the empty string.)
\<close>

theorem protect_no_token_segment:
  assumes "headers_authorization rq = Some h" and "h \<noteq> []" and "CHR '' '' \<notin> set scheme"
    and "h = scheme \<or>
         (\<exists>rest. h = scheme @ '' '' @ rest \<and> takeWhile (\<lambda>c. c \<noteq> CHR '' '') rest = [])"
  shows "protect jw env now nxt rq rs =
           \<lparr>req = rq,
            res = rs\<lparr>statusCode := 401,
                     sent := Some [(''message'', JStr ''No token provided'')]\<rparr>,
            calls = []\<rparr>"
proof -
  have "falsy (index (split_str CHR '' '' h) 1)"
    using assms(4)
  proof
    assume "h = scheme"
    with assms(3) show ?thesis by (simp add: index_def falsy_def)
  next
    assume "\<exists>rest. h = scheme @ '' '' @ rest \<and> takeWhile (\<lambda>c. c \<noteq> CHR '' '') rest = []"
    then obtain rest where h: "h = scheme @ CHR '' '' # rest"
      and r: "takeWhile (\<lambda>c. c \<noteq> CHR '' '') rest = []" by auto
    from r have "hd (split_str CHR '' '' rest) = []" by (simp add: hd_split_str)
    with h assms(3) show ?thesis by (simp add: index_Cons_1 falsy_def)
  qed
  with assms(1,2) show ?thesis
    by (simp add: protect_def falsy_def res_json_def res_status_def)
qed

theorem protect_no_token_segment_witness:
  "protect (jsonwebtoken example_mac) example_env 9 (\<lambda>r. None)
       (example_request (Some ''Bearer '') ''johnDoe'' ''mysecretpassword'') fresh_response =
     \<lparr>req = example_request (Some ''Bearer '') ''johnDoe'' ''mysecretpassword'',
      res = \<lparr>statusCode = 401, sent = Some [(''message'', JStr ''No token provided'')]\<rparr>,
      calls = []\<rparr>"
  using protect_no_token_segment
    [of "example_request (Some ''Bearer '') ''johnDoe'' ''mysecretpassword''"
        "''Bearer ''" "''Bearer''"
        "jsonwebtoken example_mac" example_env 9 "\<lambda>r. None" fresh_response]
  by (simp add: fresh_response_def example_request_def)

text \<open>
  Claim C2. The \<open>Authorization\<close> header carries the token \<open>tok\<close>: it is a scheme
  without a space, a space, and a rest of which \<open>tok\<close> is the text up to the next space
  (or the end), and \<open>tok\<close> is not empty. If the verifier returns a payload for \<open>tok\<close>
  under \<open>JWT_SECRET\<close>, the payload becomes \<open>req.user\<close> and \<open>next\<close> is called, and
  \<open>protect\<close> itself writes no response; since \<open>next\<close> is called inside the \<open>try\<close>
  block, an exception it throws is logged and answered 401 like a failed verification. If
  the verifier throws, the error is logged, the answer is 401 with the body
  \<open>{message: "Invalid token"}\<close>, the request is left as it was and \<open>next\<close> is not
  called. This holds for every token library.
\<close>

theorem protect_verifies_token:
  assumes "headers_authorization rq = Some (scheme @ '' '' @ rest)"
    and "CHR '' '' \<notin> set scheme"
    and "takeWhile (\<lambda>c. c \<noteq> CHR '' '') rest = tok" and "tok \<noteq> []"
  shows "(\<forall>usr. jwt_verify jw now tok (JWT_SECRET env) = Inr usr \<longrightarrow>
            protect jw env now nxt rq rs =
              (case nxt (rq\<lparr>user := Some usr\<rparr>) of
                 None \<Rightarrow>
                   \<lparr>req = rq\<lparr>user := Some usr\<rparr>, res = rs,
                    calls = [Call_jwt_verify tok (JWT_SECRET env), Call_next]\<rparr>
               | Some e \<Rightarrow>
                   \<lparr>req = rq\<lparr>user := Some usr\<rparr>,
                    res = rs\<lparr>statusCode := 401,
                             sent := Some [(''message'', JStr ''Invalid token'')]\<rparr>,
                    calls = [Call_jwt_verify tok (JWT_SECRET env), Call_next,
                             Call_console_error e]\<rparr>))
       \<and> (\<forall>e. jwt_verify jw now tok (JWT_SECRET env) = Inl e \<longrightarrow>
            protect jw env now nxt rq rs =
              \<lparr>req = rq,
               res = rs\<lparr>statusCode := 401,
                        sent := Some [(''message'', JStr ''Invalid token'')]\<rparr>,
               calls = [Call_jwt_verify tok (JWT_SECRET env), Call_console_error e]\<rparr>)"
proof -
  have "hd (split_str CHR '' '' rest) = tok"
    using assms(3) by (simp add: hd_split_str)
  then have "index (split_str CHR '' '' (scheme @ '' '' @ rest)) 1 = Some tok"
    using assms(2) by (simp add: index_Cons_1)
  with assms(1,4) show ?thesis
    by (auto simp: protect_def falsy_def res_json_def res_status_def Let_def
             split: option.splits)
qed

theorem protect_verifies_token_witness:
  "protect (jsonwebtoken example_mac) example_env 9 (\<lambda>r. None)
       (example_request (Some ''Bearer garbage'') ''johnDoe'' ''mysecretpassword'')
       fresh_response =
     \<lparr>req = example_request (Some ''Bearer garbage'') ''johnDoe'' ''mysecretpassword'',
      res = \<lparr>statusCode = 401, sent = Some [(''message'', JStr ''Invalid token'')]\<rparr>,
      calls = [Call_jwt_verify ''garbage'' (Some ''s3cret''),
               Call_console_error InvalidToken]\<rparr>
   \<and> (\<exists>tok. createJWT (jsonwebtoken example_mac) example_env 5 example_user = Inr tok
        \<and> protect (jsonwebtoken example_mac) example_env 9 (\<lambda>r. None)
            (example_request (Some (''Bearer '' @ tok)) ''johnDoe'' ''mysecretpassword'')
            fresh_response =
          \<lparr>req = (example_request (Some (''Bearer '' @ tok)) ''johnDoe'' ''mysecretpassword'')
                   \<lparr>user := Some [(''id'', JStr ''u1''), (''username'', JStr ''johnDoe''),
                                  (''iat'', JNum 5)]\<rparr>,
           res = fresh_response,
           calls = [Call_jwt_verify tok (Some ''s3cret''), Call_next]\<rparr>)"
proof
  have "jwt_verify (jsonwebtoken example_mac) 9 ''garbage'' (JWT_SECRET example_env) =
      Inl InvalidToken"
    by (simp add: jsonwebtoken_def verify_def)
  with protect_verifies_token
    [of "example_request (Some ''Bearer garbage'') ''johnDoe'' ''mysecretpassword''"
        "''Bearer''" "''garbage''" "''garbage''"
        "jsonwebtoken example_mac" 9 example_env "\<lambda>r. None" fresh_response]
  show "protect (jsonwebtoken example_mac) example_env 9 (\<lambda>r. None)
       (example_request (Some ''Bearer garbage'') ''johnDoe'' ''mysecretpassword'')
       fresh_response =
     \<lparr>req = example_request (Some ''Bearer garbage'') ''johnDoe'' ''mysecretpassword'',
      res = \<lparr>statusCode = 401, sent = Some [(''message'', JStr ''Invalid token'')]\<rparr>,
      calls = [Call_jwt_verify ''garbage'' (Some ''s3cret''),
               Call_console_error InvalidToken]\<rparr>"
    by (simp add: fresh_response_def example_request_def example_env_def)
next
  have nf: "\<not> falsy (JWT_SECRET example_env)" by (simp add: falsy_def example_env_def)
  from createJWT_reference [OF nf, of example_mac 5 example_user]
  obtain tok where tok: "createJWT (jsonwebtoken example_mac) example_env 5 example_user = Inr tok"
    by blast
  then have "CHR '' '' \<notin> set tok" and ne: "tok \<noteq> []"
    by (auto simp: createJWT_def jsonwebtoken_def dest: sign_space_free sign_nonempty)
  then have sp: "takeWhile (\<lambda>c. c \<noteq> CHR '' '') tok = tok"
    by (auto simp: takeWhile_eq_all_conv)
  have "verify example_mac 9 tok (Some ''s3cret'') =
      Inr [(''id'', JStr (id' example_user)), (''username'', JStr (username example_user)),
           (''iat'', JNum (int 5))]"
    using tok by (intro createJWT_verify [of example_env]) (simp_all add: example_env_def)
  then have v: "jwt_verify (jsonwebtoken example_mac) 9 tok (JWT_SECRET example_env) =
      Inr [(''id'', JStr ''u1''), (''username'', JStr ''johnDoe''), (''iat'', JNum 5)]"
    by (simp add: jsonwebtoken_def example_env_def example_user_def)
  from protect_verifies_token
    [of "example_request (Some (''Bearer '' @ tok)) ''johnDoe'' ''mysecretpassword''"
        "''Bearer''" tok tok
        "jsonwebtoken example_mac" 9 example_env "\<lambda>r. None" fresh_response]
    sp ne v
  have "protect (jsonwebtoken example_mac) example_env 9 (\<lambda>r. None)
            (example_request (Some (''Bearer '' @ tok)) ''johnDoe'' ''mysecretpassword'')
            fresh_response =
          \<lparr>req = (example_request (Some (''Bearer '' @ tok)) ''johnDoe'' ''mysecretpassword'')
                   \<lparr>user := Some [(''id'', JStr ''u1''), (''username'', JStr ''johnDoe''),
                                  (''iat'', JNum 5)]\<rparr>,
           res = fresh_response,
           calls = [Call_jwt_verify tok (Some ''s3cret''), Call_next]\<rparr>"
    by (simp add: example_request_def example_env_def)
  with tok show "\<exists>tok. createJWT (jsonwebtoken example_mac) example_env 5 example_user = Inr tok
        \<and> protect (jsonwebtoken example_mac) example_env 9 (\<lambda>r. None)
            (example_request (Some (''Bearer '' @ tok)) ''johnDoe'' ''mysecretpassword'')
            fresh_response =
          \<lparr>req = (example_request (Some (''Bearer '' @ tok)) ''johnDoe'' ''mysecretpassword'')
                   \<lparr>user := Some [(''id'', JStr ''u1''), (''username'', JStr ''johnDoe''),
                                  (''iat'', JNum 5)]\<rparr>,
           res = fresh_response,
           calls = [Call_jwt_verify tok (Some ''s3cret''), Call_next]\<rparr>"
    by blast
qed

section \<open>Issuing and verifying tokens\<close>

text \<open>
  Claim C10, as the code has it. The payload of an issued token has the account's \<open>id\<close>
  and \<open>username\<close> and, besides them, the issue time that the signing library adds; no
  other field of the account enters the token. Changing the stored password hash of an
  account leaves its token as it is, and two accounts with the same \<open>id\<close> and
  \<open>username\<close> get the same token (same secret, same clock), whatever the token library
  is; on the token library modelled from the specification, with a signing secret in place,
  the token is issued and its payload read back is \<open>id\<close>, \<open>username\<close> and \<open>iat\<close>.
\<close>

theorem createJWT_depends_on_id_and_username:
  "(\<forall>h. createJWT jw env now (usr\<lparr>password := h\<rparr>) = createJWT jw env now usr)
   \<and> (\<forall>other. id' other = id' usr \<and> username other = username usr \<longrightarrow>
          createJWT jw env now other = createJWT jw env now usr)
   \<and> (\<not> falsy (JWT_SECRET env) \<longrightarrow>
          (\<exists>tok. createJWT (jsonwebtoken mac) env now usr = Inr tok
             \<and> jwt_verify (jsonwebtoken mac) now' tok (JWT_SECRET env) =
                 Inr [(''id'', JStr (id' usr)), (''username'', JStr (username usr)),
                      (''iat'', JNum (int now))]))"
proof (intro conjI allI impI)
  fix h
  show "createJWT jw env now (usr\<lparr>password := h\<rparr>) = createJWT jw env now usr"
    by (simp add: createJWT_def)
next
  fix other :: User
  assume "id' other = id' usr \<and> username other = username usr"
  then show "createJWT jw env now other = createJWT jw env now usr"
    by (simp add: createJWT_def)
next
  assume nf: "\<not> falsy (JWT_SECRET env)"
  then obtain s where s: "JWT_SECRET env = Some s" "s \<noteq> []"
    by (auto simp: falsy_def split: option.splits)
  from createJWT_reference [OF nf, of mac now usr]
  obtain tok where tok: "createJWT (jsonwebtoken mac) env now usr = Inr tok" by blast
  from createJWT_verify [OF s tok, of now']
  have "jwt_verify (jsonwebtoken mac) now' tok (JWT_SECRET env) =
      Inr [(''id'', JStr (id' usr)), (''username'', JStr (username usr)),
           (''iat'', JNum (int now))]"
    by (simp add: jsonwebtoken_def s)
  with tok show "\<exists>tok. createJWT (jsonwebtoken mac) env now usr = Inr tok
             \<and> jwt_verify (jsonwebtoken mac) now' tok (JWT_SECRET env) =
                 Inr [(''id'', JStr (id' usr)), (''username'', JStr (username usr)),
                      (''iat'', JNum (int now))]"
    by blast
qed

theorem createJWT_depends_on_id_and_username_witness:
  "id' (example_user\<lparr>password := ''another hash'', updatedAt := 7\<rparr>) = id' example_user
   \<and> username (example_user\<lparr>password := ''another hash'', updatedAt := 7\<rparr>)
       = username example_user
   \<and> createJWT (jsonwebtoken example_mac) example_env 5
        (example_user\<lparr>password := ''another hash'', updatedAt := 7\<rparr>)
       = createJWT (jsonwebtoken example_mac) example_env 5 example_user
   \<and> \<not> falsy (JWT_SECRET example_env)
   \<and> (\<exists>tok. createJWT (jsonwebtoken example_mac) example_env 5 example_user = Inr tok
         \<and> jwt_verify (jsonwebtoken example_mac) 9 tok (JWT_SECRET example_env) =
             Inr [(''id'', JStr (id' example_user)), (''username'', JStr (username example_user)),
                  (''iat'', JNum (int 5))])"
proof -
  note t = createJWT_depends_on_id_and_username
    [of "jsonwebtoken example_mac" example_env 5 example_user example_mac 9]
  have same: "id' (example_user\<lparr>password := ''another hash'', updatedAt := 7\<rparr>) = id' example_user
      \<and> username (example_user\<lparr>password := ''another hash'', updatedAt := 7\<rparr>)
          = username example_user"
    by simp
  have nf: "\<not> falsy (JWT_SECRET example_env)" by (simp add: falsy_def example_env_def)
  from t have 1: "\<forall>other. id' other = id' example_user \<and> username other = username example_user \<longrightarrow>
      createJWT (jsonwebtoken example_mac) example_env 5 other =
      createJWT (jsonwebtoken example_mac) example_env 5 example_user"
    by blast
  from t nf have 2: "\<exists>tok. createJWT (jsonwebtoken example_mac) example_env 5 example_user = Inr tok
         \<and> jwt_verify (jsonwebtoken example_mac) 9 tok (JWT_SECRET example_env) =
             Inr [(''id'', JStr (id' example_user)), (''username'', JStr (username example_user)),
                  (''iat'', JNum (int 5))]"
    by blast
  from same 1 have 3: "createJWT (jsonwebtoken example_mac) example_env 5
        (example_user\<lparr>password := ''another hash'', updatedAt := 7\<rparr>)
       = createJWT (jsonwebtoken example_mac) example_env 5 example_user"
    by blast
  from same 3 nf 2 show ?thesis by blast
qed

text \<open>
  The claim as it was stated, that the payload of an issued token has the account's \<open>id\<close>
  and \<open>username\<close> and nothing else, fails: the payload of the token issued for the
  example account at time 5 has a third field, the issue time.
\<close>

theorem createJWT_payload_has_issue_time:
  "\<not> isl (createJWT (jsonwebtoken example_mac) example_env 5 example_user)
   \<and> jwt_verify (jsonwebtoken example_mac) 9
        (projr (createJWT (jsonwebtoken example_mac) example_env 5 example_user))
        (JWT_SECRET example_env) =
       Inr [(''id'', JStr ''u1''), (''username'', JStr ''johnDoe''), (''iat'', JNum 5)]
   \<and> jwt_verify (jsonwebtoken example_mac) 9
        (projr (createJWT (jsonwebtoken example_mac) example_env 5 example_user))
        (JWT_SECRET example_env) \<noteq>
       Inr [(''id'', JStr (id' example_user)), (''username'', JStr (username example_user))]"
proof -
  have nf: "\<not> falsy (JWT_SECRET example_env)" by (simp add: falsy_def example_env_def)
  have s: "JWT_SECRET example_env = Some ''s3cret''" "''s3cret'' \<noteq> []"
    by (simp_all add: example_env_def)
  from createJWT_reference [OF nf, of example_mac 5 example_user]
  obtain tok where
    tok: "createJWT (jsonwebtoken example_mac) example_env 5 example_user = Inr tok"
    by blast
  from createJWT_verify [OF s tok, of 9]
  have "jwt_verify (jsonwebtoken example_mac) 9 tok (JWT_SECRET example_env) =
      Inr [(''id'', JStr ''u1''), (''username'', JStr ''johnDoe''), (''iat'', JNum 5)]"
    by (simp add: jsonwebtoken_def s example_user_def)
  with tok show ?thesis by simp
qed

text \<open>
  Claim C1. With a signing secret in place (\<open>JWT_SECRET\<close> is set and not empty), issuing a
  token for an account succeeds, and verifying that token under the same secret, at any
  time, succeeds with a payload whose \<open>id\<close> and \<open>username\<close> are the account's
  (the third field is the issue time). The token library is the one modelled from the
  specification, for every keyed digest \<open>mac\<close>.
\<close>

theorem issue_then_verify:
  assumes "\<not> falsy (JWT_SECRET env)"
  shows "\<exists>tok payload.
           createJWT (jsonwebtoken mac) env now a = Inr tok
         \<and> jwt_verify (jsonwebtoken mac) now' tok (JWT_SECRET env) = Inr payload
         \<and> map_of payload ''id'' = Some (JStr (id' a))
         \<and> map_of payload ''username'' = Some (JStr (username a))
         \<and> payload = [(''id'', JStr (id' a)), (''username'', JStr (username a)),
                       (''iat'', JNum (int now))]"
proof -
  from assms obtain s where s: "JWT_SECRET env = Some s" "s \<noteq> []"
    by (auto simp: falsy_def split: option.splits)
  from createJWT_reference [OF assms, of mac now a]
  obtain tok where tok: "createJWT (jsonwebtoken mac) env now a = Inr tok" by blast
  from createJWT_verify [OF s tok, of now']
  have "jwt_verify (jsonwebtoken mac) now' tok (JWT_SECRET env) =
      Inr [(''id'', JStr (id' a)), (''username'', JStr (username a)), (''iat'', JNum (int now))]"
    by (simp add: jsonwebtoken_def s)
  with tok show ?thesis by simp
qed

theorem issue_then_verify_witness:
  "\<not> falsy (JWT_SECRET example_env)
   \<and> (\<exists>tok payload.
         createJWT (jsonwebtoken example_mac) example_env 5 example_user = Inr tok
       \<and> jwt_verify (jsonwebtoken example_mac) 9 tok (JWT_SECRET example_env) = Inr payload
       \<and> map_of payload ''id'' = Some (JStr (id' example_user))
       \<and> map_of payload ''username'' = Some (JStr (username example_user))
       \<and> payload = [(''id'', JStr (id' example_user)),
                     (''username'', JStr (username example_user)), (''iat'', JNum (int 5))])"
proof -
  have nf: "\<not> falsy (JWT_SECRET example_env)" by (simp add: falsy_def example_env_def)
  from nf issue_then_verify [OF nf, of example_mac 5 example_user 9] show ?thesis by blast
qed



section \<open>Hashing and comparing passwords\<close>

text \<open>
  Claim C8. For every plaintext \<open>p\<close>, comparing \<open>p\<close> with its hash gives true; and two
  calls that draw different salts (each of the 22 characters a salt has) give different
  hash strings, both of which compare true with \<open>p\<close>. The password library is the one
  modelled from the specification, for every key derivation \<open>kdf\<close>.
\<close>

theorem hash_then_compare:
  assumes "length s1 = 22" and "length s2 = 22" and "s1 \<noteq> s2"
  shows "comparePasswords (bcryptjs kdf) p (hashPassword (bcryptjs kdf) s1 p) = Inr True
       \<and> comparePasswords (bcryptjs kdf) p (hashPassword (bcryptjs kdf) s2 p) = Inr True
       \<and> hashPassword (bcryptjs kdf) s1 p \<noteq> hashPassword (bcryptjs kdf) s2 p"
proof -
  have "hash kdf s1 p 10 \<noteq> hash kdf s2 p 10"
    using assms hash_salt_inj [of s1 s2 kdf p 10] by auto
  then show ?thesis
    using compare_hash [OF assms(1), of 10 kdf p] compare_hash [OF assms(2), of 10 kdf p]
    by (simp add: comparePasswords_def hashPassword_def bcryptjs_def)
qed

theorem hash_then_compare_witness:
  "comparePasswords (bcryptjs example_kdf) ''mysecretpassword''
      (hashPassword (bcryptjs example_kdf) ''abcdefghijklmnopqrstuv'' ''mysecretpassword'')
      = Inr True
   \<and> comparePasswords (bcryptjs example_kdf) ''mysecretpassword''
      (hashPassword (bcryptjs example_kdf) ''ABCDEFGHIJKLMNOPQRSTUV'' ''mysecretpassword'')
      = Inr True
   \<and> hashPassword (bcryptjs example_kdf) ''abcdefghijklmnopqrstuv'' ''mysecretpassword''
     \<noteq> hashPassword (bcryptjs example_kdf) ''ABCDEFGHIJKLMNOPQRSTUV'' ''mysecretpassword''"
  by (rule hash_then_compare) simp_all

section \<open>The handlers\<close>

text \<open>
  Claim C4. The username of a sign-in request is that of a stored account (the usernames
  of the table are pairwise different, as its unique index keeps them). If the comparison
  of the submitted password with the stored hash gives false, the answer is 401 with the
  body \<open>{message: "Invalid Credentials"}\<close>, whatever the token library is: it holds no
  token. If the comparison gives true, then, with a signing secret in place and the token
  library modelled from the specification, the answer is the body \<open>{token}\<close>, the status
  code left as it was (200 on the response the framework hands over), and the token is one
  issued for that account: it is not empty and it verifies under the secret to a payload
  with the account's \<open>id\<close> and \<open>username\<close>. The password library is any.
\<close>

theorem signin_known_user:
  assumes "usr \<in> set db" and "username usr = body_username (body rq)"
    and "distinct (map username db)"
  shows "(comparePasswords bc (body_password (body rq)) (password usr) = Inr False \<longrightarrow>
            signin bc jw env now db rq rs =
              Inr (rs\<lparr>statusCode := 401,
                       sent := Some [(''message'', JStr ''Invalid Credentials'')]\<rparr>))
       \<and> (comparePasswords bc (body_password (body rq)) (password usr) = Inr True
            \<and> \<not> falsy (JWT_SECRET env) \<longrightarrow>
            (\<exists>token.
               signin bc (jsonwebtoken mac) env now db rq rs =
                 Inr (rs\<lparr>sent := Some [(''token'', JStr token)]\<rparr>)
               \<and> token \<noteq> []
               \<and> jwt_verify (jsonwebtoken mac) now' token (JWT_SECRET env) =
                   Inr [(''id'', JStr (id' usr)), (''username'', JStr (username usr)),
                        (''iat'', JNum (int now))]))"
proof (intro conjI impI)
  have found: "prisma_user_findUnique db (body_username (body rq)) = Some usr"
    unfolding prisma_user_findUnique_def assms(2) [symmetric]
    using assms(3,1) by (rule find_distinct)
  {
    assume "comparePasswords bc (body_password (body rq)) (password usr) = Inr False"
    with found show "signin bc jw env now db rq rs =
        Inr (rs\<lparr>statusCode := 401,
                 sent := Some [(''message'', JStr ''Invalid Credentials'')]\<rparr>)"
      by (simp add: signin_def res_json_def res_status_def)
  next
    assume h: "comparePasswords bc (body_password (body rq)) (password usr) = Inr True
        \<and> \<not> falsy (JWT_SECRET env)"
    then have nf: "\<not> falsy (JWT_SECRET env)" by simp
    then obtain s where s: "JWT_SECRET env = Some s" "s \<noteq> []"
      by (auto simp: falsy_def split: option.splits)
    from createJWT_reference [OF nf, of mac now usr]
    obtain token where t: "createJWT (jsonwebtoken mac) env now usr = Inr token" by blast
    then have ne: "token \<noteq> []"
      by (auto simp: createJWT_def jsonwebtoken_def dest: sign_nonempty)
    from createJWT_verify [OF s t, of now']
    have v: "jwt_verify (jsonwebtoken mac) now' token (JWT_SECRET env) =
        Inr [(''id'', JStr (id' usr)), (''username'', JStr (username usr)),
             (''iat'', JNum (int now))]"
      by (simp add: jsonwebtoken_def s)
    from found h t have "signin bc (jsonwebtoken mac) env now db rq rs =
        Inr (rs\<lparr>sent := Some [(''token'', JStr token)]\<rparr>)"
      by (simp add: signin_def res_json_def)
    with ne v show "\<exists>token.
        signin bc (jsonwebtoken mac) env now db rq rs =
          Inr (rs\<lparr>sent := Some [(''token'', JStr token)]\<rparr>)
        \<and> token \<noteq> []
        \<and> jwt_verify (jsonwebtoken mac) now' token (JWT_SECRET env) =
            Inr [(''id'', JStr (id' usr)), (''username'', JStr (username usr)),
                 (''iat'', JNum (int now))]"
      by blast
  }
qed

theorem signin_known_user_witness:
  "signin (bcryptjs example_kdf) (jsonwebtoken example_mac) example_env 9 [example_user]
     (example_request None ''johnDoe'' ''not the password'') fresh_response =
     Inr \<lparr>statusCode = 401, sent = Some [(''message'', JStr ''Invalid Credentials'')]\<rparr>
   \<and> (\<exists>token.
        signin (bcryptjs example_kdf) (jsonwebtoken example_mac) example_env 9 [example_user]
          (example_request None ''johnDoe'' ''mysecretpassword'') fresh_response =
          Inr \<lparr>statusCode = 200, sent = Some [(''token'', JStr token)]\<rparr>
        \<and> token \<noteq> []
        \<and> jwt_verify (jsonwebtoken example_mac) 12 token (JWT_SECRET example_env) =
            Inr [(''id'', JStr ''u1''), (''username'', JStr ''johnDoe''), (''iat'', JNum 9)])"
proof
  have "compare example_kdf ''not the password''
      (hash example_kdf ''abcdefghijklmnopqrstuv'' ''mysecretpassword'' 10) = Inr False"
    by (subst compare_hash_iff) (simp_all add: example_kdf_def)
  then have "comparePasswords (bcryptjs example_kdf) ''not the password''
      (password example_user) = Inr False"
    by (simp add: comparePasswords_def bcryptjs_def hashPassword_def example_user_def)
  with signin_known_user
    [of example_user "[example_user]" "example_request None ''johnDoe'' ''not the password''"
        "bcryptjs example_kdf" "jsonwebtoken example_mac" example_env 9 fresh_response]
  show "signin (bcryptjs example_kdf) (jsonwebtoken example_mac) example_env 9 [example_user]
     (example_request None ''johnDoe'' ''not the password'') fresh_response =
     Inr \<lparr>statusCode = 401, sent = Some [(''message'', JStr ''Invalid Credentials'')]\<rparr>"
    by (simp add: example_request_def example_user_def fresh_response_def)
next
  have nf: "\<not> falsy (JWT_SECRET example_env)" by (simp add: falsy_def example_env_def)
  have "compare example_kdf ''mysecretpassword''
      (hash example_kdf ''abcdefghijklmnopqrstuv'' ''mysecretpassword'' 10) = Inr True"
    by (rule compare_hash) simp_all
  then have c: "comparePasswords (bcryptjs example_kdf)
      (body_password (body (example_request None ''johnDoe'' ''mysecretpassword'')))
      (password example_user) = Inr True"
    by (simp add: comparePasswords_def bcryptjs_def hashPassword_def example_user_def
          example_request_def)
  have m: "example_user \<in> set [example_user]"
    "username example_user = body_username (body (example_request None ''johnDoe''
        ''mysecretpassword''))"
    "distinct (map username [example_user])"
    by (simp_all add: example_request_def example_user_def)
  from signin_known_user [OF m, of "bcryptjs example_kdf" _ example_env 9 fresh_response
      example_mac 12] c nf
  obtain token where
    "signin (bcryptjs example_kdf) (jsonwebtoken example_mac) example_env 9 [example_user]
       (example_request None ''johnDoe'' ''mysecretpassword'') fresh_response =
       Inr (fresh_response\<lparr>sent := Some [(''token'', JStr token)]\<rparr>)"
    "token \<noteq> []"
    "jwt_verify (jsonwebtoken example_mac) 12 token (JWT_SECRET example_env) =
       Inr [(''id'', JStr (id' example_user)), (''username'', JStr (username example_user)),
            (''iat'', JNum (int 9))]"
    by blast
  then show "\<exists>token.
        signin (bcryptjs example_kdf) (jsonwebtoken example_mac) example_env 9 [example_user]
          (example_request None ''johnDoe'' ''mysecretpassword'') fresh_response =
          Inr \<lparr>statusCode = 200, sent = Some [(''token'', JStr token)]\<rparr>
        \<and> token \<noteq> []
        \<and> jwt_verify (jsonwebtoken example_mac) 12 token (JWT_SECRET example_env) =
            Inr [(''id'', JStr ''u1''), (''username'', JStr ''johnDoe''), (''iat'', JNum 9)]"
    by (auto simp: fresh_response_def example_user_def)
qed

text \<open>
  Claim C3. The claim asks for a 401 or 404 answer to a sign-in whose username matches no
  stored account. The handler has no such branch: the lookup gives \<open>null\<close>, reading
  \<open>user.password\<close> throws a \<open>TypeError\<close>, and the promise is rejected with no
  response written, whatever the libraries, the secret and the submitted password are.
\<close>

theorem signin_unknown_username:
  "\<not> list_ex (\<lambda>u. username u = body_username (body rq)) db \<Longrightarrow>
   signin bc jw env now db rq rs = Inl TypeError"
proof -
  assume "\<not> list_ex (\<lambda>u. username u = body_username (body rq)) db"
  then have "find (\<lambda>u. username u = body_username (body rq)) db = None"
    by (simp add: find_None_iff list_ex_iff)
  then show ?thesis by (simp add: signin_def prisma_user_findUnique_def)
qed

theorem signin_unknown_username_witness:
  "\<not> list_ex (\<lambda>u. username u = body_username (body (example_request None ''ghost'' ''pw'')))
       [example_user]
   \<and> signin (bcryptjs example_kdf) (jsonwebtoken example_mac) example_env 9 [example_user]
       (example_request None ''ghost'' ''pw'') fresh_response = Inl TypeError"
proof -
  have h: "\<not> list_ex (\<lambda>u. username u = body_username (body (example_request None ''ghost'' ''pw'')))
       [example_user]"
    by (simp add: example_request_def example_user_def)
  from h signin_unknown_username [OF h] show ?thesis by blast
qed



section \<open>Further properties of the handlers and the middleware\<close>

text \<open>
  A sign-up whose username is already in the table is not answered: the create
  fails with the conflict error, the promise is rejected with it, and the table is left as
  it was.
\<close>

theorem createNewUser_duplicate_username:
  "list_ex (\<lambda>u. username u = body_username (body rq)) db \<Longrightarrow>
   createNewUser bc jw env now new_id salt db rq rs = (db, Inl ConflictError)"
proof -
  assume "list_ex (\<lambda>u. username u = body_username (body rq)) db"
  then have "list_ex (\<lambda>u. username u = body_username (body rq) \<or> id' u = new_id) db"
    by (auto simp: list_ex_iff)
  then show ?thesis by (simp add: createNewUser_def prisma_user_create_def)
qed

theorem createNewUser_duplicate_username_witness:
  "list_ex (\<lambda>u. username u = body_username (body (example_request None ''johnDoe'' ''pw'')))
     [example_user]
   \<and> createNewUser (bcryptjs example_kdf) (jsonwebtoken example_mac) example_env 9 ''u2''
       ''ABCDEFGHIJKLMNOPQRSTUV'' [example_user] (example_request None ''johnDoe'' ''pw'')
       fresh_response = ([example_user], Inl ConflictError)"
proof -
  have h: "list_ex (\<lambda>u. username u = body_username (body (example_request None ''johnDoe''
      ''pw''))) [example_user]"
    by (simp add: example_request_def example_user_def)
  from h createNewUser_duplicate_username [OF h] show ?thesis by blast
qed

text \<open>
  When the create of a sign-up succeeds and issuing the token throws (as it does
  when no signing secret is set), the promise is rejected with what was thrown, and the new
  row stays in the table: the account exists although the sign-up was not answered.
\<close>

theorem createNewUser_token_failure:
  "prisma_user_create new_id now db (body_username (body rq))
     (hashPassword bc salt (body_password (body rq))) = Inr (usr, db') \<Longrightarrow>
   createJWT jw env now usr = Inl e \<Longrightarrow>
   createNewUser bc jw env now new_id salt db rq rs = (db', Inl e) \<and> usr \<in> set db'"
  by (auto simp: createNewUser_def prisma_user_create_def Let_def split: if_splits)

theorem createNewUser_token_failure_witness:
  "createNewUser (bcryptjs example_kdf) (jsonwebtoken example_mac) \<lparr>JWT_SECRET = None\<rparr> 5
     ''u1'' ''abcdefghijklmnopqrstuv'' [] (example_request None ''johnDoe'' ''mysecretpassword'')
     fresh_response = ([example_user], Inl SecretAbsent)
   \<and> example_user \<in> set [example_user]"
proof -
  have c: "prisma_user_create ''u1'' 5 [] (body_username (body (example_request None ''johnDoe''
        ''mysecretpassword'')))
      (hashPassword (bcryptjs example_kdf) ''abcdefghijklmnopqrstuv''
        (body_password (body (example_request None ''johnDoe'' ''mysecretpassword''))))
      = Inr (example_user, [example_user])"
    by (simp add: prisma_user_create_def example_request_def example_user_def Let_def)
  have t: "createJWT (jsonwebtoken example_mac) \<lparr>JWT_SECRET = None\<rparr> 5 example_user
      = Inl SecretAbsent"
    by (simp add: createJWT_def jsonwebtoken_def sign_def falsy_def)
  from createNewUser_token_failure [OF c t, of fresh_response] show ?thesis .
qed

text \<open>
  An \<open>Authorization\<close> header that is present with an empty value is answered as
  an absent one, 401 with the body \<open>{message: "Unauthorized"}\<close>, since \<open>!bearer\<close> holds
  for the empty string.
\<close>

theorem protect_empty_authorization_header:
  "headers_authorization rq = Some [] \<Longrightarrow>
   protect jw env now nxt rq rs =
     \<lparr>req = rq,
      res = rs\<lparr>statusCode := 401, sent := Some [(''message'', JStr ''Unauthorized'')]\<rparr>,
      calls = []\<rparr>"
  by (simp add: protect_def falsy_def res_json_def res_status_def)

theorem protect_empty_authorization_header_witness:
  "headers_authorization (example_request (Some []) ''johnDoe'' ''mysecretpassword'') = Some []
   \<and> protect (jsonwebtoken example_mac) example_env 9 (\<lambda>r. None)
       (example_request (Some []) ''johnDoe'' ''mysecretpassword'') fresh_response =
     \<lparr>req = example_request (Some []) ''johnDoe'' ''mysecretpassword'',
      res = \<lparr>statusCode = 401, sent = Some [(''message'', JStr ''Unauthorized'')]\<rparr>,
      calls = []\<rparr>"
  using protect_empty_authorization_header
    [of "example_request (Some []) ''johnDoe'' ''mysecretpassword''"
        "jsonwebtoken example_mac" example_env 9 "\<lambda>r. None" fresh_response]
  by (simp add: fresh_response_def example_request_def)

end
